theory Spec2Isabelle
  imports Main
begin

section \<open>JavaScript values, faults and the try/catch discipline\<close>

text \<open>
  The relayer is three near-identical files: the direct script
  \<^verbatim>\<open>src/update-oracle.ts\<close>, the managed-function build \<^verbatim>\<open>dist/update-oracle.js\<close>
  and an older compiled module. Every operation is an \<^verbatim>\<open>async\<close> function whose body is
  one \<^verbatim>\<open>try { ... } catch (error) { ... }\<close>. An awaited call either yields a value or
  throws; a computation is therefore a value of \<open>fault + 'a\<close>, with \<open>Inl\<close> the thrown
  fault. The \<^verbatim>\<open>catch\<close> block is code too and may throw in its turn. Console output is
  not part of the model.

  JSON-like values (the Lambda event, the body of the attestation response) are values
  of \<open>jsval\<close>. Numbers are restricted to integers; strings are lists of 8-bit
  characters.
\<close>

datatype jsval =
    JUndefined
  | JNull
  | JBool bool
  | JNum int
  | JStr string
  | JArr "jsval list"
  | JObj "(string \<times> jsval) list"

text \<open>
  What is thrown: an instance of \<^verbatim>\<open>Error\<close> with its message, or any other value. Of a
  value that is no \<^verbatim>\<open>Error\<close> the program observes one thing only, the outcome of
  \<^verbatim>\<open>String(error)\<close>: the string it yields (\<open>Thrown\<close>), or, for a value that cannot be
  converted, such as an object whose \<^verbatim>\<open>toString\<close> is no function, the fault that the
  conversion throws (\<open>Unprintable\<close>).
\<close>

datatype fault =
    JsError (message: string)
  | Thrown string
  | Unprintable fault

text \<open>Truthiness, as \<^verbatim>\<open>&&\<close>, \<^verbatim>\<open>!\<close> and \<^verbatim>\<open>||\<close> read a value.\<close>

fun truthy :: "jsval \<Rightarrow> bool" where
  "truthy JUndefined = False"
| "truthy JNull = False"
| "truthy (JBool b) = b"
| "truthy (JNum n) = (n \<noteq> 0)"
| "truthy (JStr s) = (s \<noteq> [])"
| "truthy (JArr xs) = True"
| "truthy (JObj kvs) = True"

text \<open>An environment variable is \<^verbatim>\<open>undefined\<close> or a string; the empty string is falsy.\<close>

fun truthy_env :: "string option \<Rightarrow> bool" where
  "truthy_env None = False"
| "truthy_env (Some s) = (s \<noteq> [])"

subsection \<open>Decimal rendering of integers\<close>

definition digit :: "nat \<Rightarrow> char" where
  "digit d = ''0123456789'' ! d"

text \<open>\<^verbatim>\<open>BigInt.prototype.toString()\<close>: the decimal digits, most significant first.\<close>

function toString :: "nat \<Rightarrow> string" where
  "toString n = (if n < 10 then [digit n] else toString (n div 10) @ [digit (n mod 10)])"
  by pat_completeness auto
termination
  by (relation "measure id") auto

declare toString.simps [simp del]

text \<open>
  \<^verbatim>\<open>function formatError(error) { if (error instanceof Error) return error.message;
  return String(error); }\<close>. It returns the description, or throws what \<^verbatim>\<open>String\<close> throws.
\<close>

fun formatError :: "fault \<Rightarrow> fault + string" where
  "formatError (JsError m) = Inr m"
| "formatError (Thrown s) = Inr s"
| "formatError (Unprintable error) = Inl error"

text \<open>Sequencing of steps that may throw, and \<^verbatim>\<open>try { body } catch (error) { handler }\<close>.\<close>

definition await :: "fault + 'a \<Rightarrow> ('a \<Rightarrow> fault + 'b) \<Rightarrow> fault + 'b" where
  "await p k = (case p of Inl error \<Rightarrow> Inl error | Inr v \<Rightarrow> k v)"

definition try_catch :: "fault + 'a \<Rightarrow> (fault \<Rightarrow> fault + 'a) \<Rightarrow> fault + 'a" where
  "try_catch body handler = (case body of Inl error \<Rightarrow> handler error | Inr v \<Rightarrow> Inr v)"

text \<open>
  The \<^verbatim>\<open>TypeError\<close> of a property read on \<^verbatim>\<open>undefined\<close> or \<^verbatim>\<open>null\<close>, with the message
  as V8 words it.
\<close>

definition cannot_read :: "string \<Rightarrow> string \<Rightarrow> fault" where
  "cannot_read what k =
     JsError (''Cannot read properties of '' @ what @ '' (reading '' @
       [CHR 0x27] @ k @ [CHR 0x27] @ '')'')"

text \<open>
  Reading a property: \<^verbatim>\<open>undefined.k\<close> and \<^verbatim>\<open>null.k\<close> throw; an object yields the field
  or \<^verbatim>\<open>undefined\<close>; the names read by this program (\<^verbatim>\<open>binary\<close>, \<^verbatim>\<open>data\<close>) are no
  property of a primitive or of an array.
\<close>

fun get_prop :: "jsval \<Rightarrow> string \<Rightarrow> fault + jsval" where
  "get_prop JUndefined k = Inl (cannot_read ''undefined'' k)"
| "get_prop JNull k = Inl (cannot_read ''null'' k)"
| "get_prop (JObj kvs) k = Inr (case map_of kvs k of Some v \<Rightarrow> v | None \<Rightarrow> JUndefined)"
| "get_prop v k = Inr JUndefined"

section \<open>Normalisation of the attestation blobs\<close>

definition startsWith :: "string \<Rightarrow> string \<Rightarrow> bool" where
  "startsWith s p = (take (length p) s = p)"

text \<open>
  The callback of \<^verbatim>\<open>rawData.map\<close>:
  \<^verbatim>\<open>(hexString) => { if (!hexString.startsWith("0x")) { hexString = "0x" + hexString; }
  return hexString; }\<close>.
  On a value that is no string the method call throws.
\<close>

fun add0x :: "jsval \<Rightarrow> fault + string" where
  "add0x (JStr hexString) =
     Inr (if \<not> startsWith hexString ''0x'' then ''0x'' @ hexString else hexString)"
| "add0x JUndefined = Inl (cannot_read ''undefined'' ''startsWith'')"
| "add0x JNull = Inl (cannot_read ''null'' ''startsWith'')"
| "add0x v = Inl (JsError ''hexString.startsWith is not a function'')"

text \<open>\<^verbatim>\<open>Array.prototype.map\<close> with a callback that may throw: the first throw ends it.\<close>

fun map_throwing :: "('a \<Rightarrow> fault + 'b) \<Rightarrow> 'a list \<Rightarrow> fault + 'b list" where
  "map_throwing f [] = Inr []"
| "map_throwing f (x # xs) =
     await (f x) (\<lambda>y. await (map_throwing f xs) (\<lambda>ys. Inr (y # ys)))"

text \<open>
  \<^verbatim>\<open>const rawData = hermesResponse.data.binary.data;
  const priceUpdateData = rawData.map(...)\<close>, from the parsed response body.
\<close>

definition rawData :: "jsval \<Rightarrow> fault + jsval" where
  "rawData body = await (get_prop body ''binary'') (\<lambda>binary. get_prop binary ''data'')"

fun priceUpdateData :: "jsval \<Rightarrow> fault + string list" where
  "priceUpdateData (JArr xs) = map_throwing add0x xs"
| "priceUpdateData JUndefined = Inl (cannot_read ''undefined'' ''map'')"
| "priceUpdateData JNull = Inl (cannot_read ''null'' ''map'')"
| "priceUpdateData v = Inl (JsError ''rawData.map is not a function'')"

section \<open>Configuration and the external collaborators\<close>

definition ETH_USD_PRICE_ID :: string where
  "ETH_USD_PRICE_ID = ''0xff61491a931112ddf1bd8147cd1b641375f79f5825126d665480874634fd0ace''"

definition USDC_USD_PRICE_ID :: string where
  "USDC_USD_PRICE_ID = ''0xeaa020c61cc479712813461ce153894a96a6c00b21ed0cfc2798d1f9a9e9c94a''"

definition hermesUrl :: string where
  "hermesUrl = ''https://hermes.pyth.network/v2/updates/price/latest?ids[]='' @
     ETH_USD_PRICE_ID @ ''&ids[]='' @ USDC_USD_PRICE_ID"

text \<open>\<^verbatim>\<open>const UPDATE_INTERVAL = 45 * 1000;\<close> (milliseconds).\<close>

definition UPDATE_INTERVAL :: int where
  "UPDATE_INTERVAL = 45 * 1000"

text \<open>The variables of \<^verbatim>\<open>process.env\<close> that the program reads.\<close>

record env =
  PRIVATE_KEY_TEST :: "string option"
  AWS_EXECUTION_ENV :: "string option"
  AWS_LAMBDA_FUNCTION_NAME :: "string option"

text \<open>
  A sent transaction: its hash, and what \<^verbatim>\<open>tx.wait()\<close> resolves to (the receipt of the
  first confirmation) or throws.
\<close>

record receipt =
  blockNumber :: nat

record tx =
  hash :: string
  wait :: "fault + receipt"

text \<open>The request handed to \<^verbatim>\<open>lambda.invoke\<close>.\<close>

record invocation =
  FunctionName :: string
  InvocationType :: string
  Payload :: string

text \<open>
  The collaborators that are not part of the program: the wallet library, the RPC
  provider, the attestation service, the two contracts and the function host. Each
  answers a call with a value or a fault. \<open>axios_get\<close> yields the parsed body
  \<^verbatim>\<open>hermesResponse.data\<close>; \<open>newWallet\<close> yields the wallet's address. A fault raised
  on the way to the callee (an argument that cannot be encoded) counts as its answer.
\<close>

record world =
  newWallet :: "string \<Rightarrow> fault + string"
  provider_getBalance :: "string \<Rightarrow> fault + nat"
  axios_get :: "string \<Rightarrow> fault + jsval"
  oracle_pyth :: "fault + string"
  pyth_getUpdateFee :: "string \<Rightarrow> string list \<Rightarrow> fault + nat"
  oracle_updatePythPrices :: "string list \<Rightarrow> nat \<Rightarrow> fault + tx"
  oracle_getUnderlyingPrice :: "jsval \<Rightarrow> fault + nat"
  oracle_assetPrices :: "jsval \<Rightarrow> fault + nat"
  lambda_invoke :: "invocation \<Rightarrow> fault + unit"

section \<open>The operations\<close>

text \<open>
  What an operation returns: \<^verbatim>\<open>{ success: true, hash }\<close>, \<^verbatim>\<open>{ success: true, price }\<close>
  or \<^verbatim>\<open>{ success: false, error }\<close>. The direct script and the managed-function build
  put strings in \<^verbatim>\<open>price\<close> and \<^verbatim>\<open>error\<close>; the older compiled module puts the raw
  integer and the raw fault there.
\<close>

datatype ('p, 'e) op_result =
    HashResult string
  | PriceResult 'p
  | ErrorResult 'e

fun success :: "('p, 'e) op_result \<Rightarrow> bool" where
  "success (HashResult h) = True"
| "success (PriceResult p) = True"
| "success (ErrorResult e) = False"

subsection \<open>The direct script (\<^verbatim>\<open>src/update-oracle.ts\<close>)\<close>

text \<open>The \<^verbatim>\<open>try\<close> block of \<^verbatim>\<open>updateOraclePrices\<close>.\<close>

definition updateOraclePrices_try ::
  "env \<Rightarrow> world \<Rightarrow> fault + (string, string) op_result" where
  "updateOraclePrices_try env w =
     (case PRIVATE_KEY_TEST env of
        None \<Rightarrow> Inl (JsError
          ''PRIVATE_KEY_TEST environment variable is not set. Please set it in .env file.'')
      | Some PRIVATE_KEY \<Rightarrow>
          if PRIVATE_KEY = [] then Inl (JsError
            ''PRIVATE_KEY_TEST environment variable is not set. Please set it in .env file.'')
          else
            await (newWallet w PRIVATE_KEY) (\<lambda>wallet.
            await (provider_getBalance w wallet) (\<lambda>balance.
            await (axios_get w hermesUrl) (\<lambda>data.
            await (rawData data) (\<lambda>raw.
            await (priceUpdateData raw) (\<lambda>blobs.
            await (oracle_pyth w) (\<lambda>pythAddress.
            await (pyth_getUpdateFee w pythAddress blobs) (\<lambda>updateFee.
            await (oracle_updatePythPrices w blobs updateFee) (\<lambda>tx.
            await (wait tx) (\<lambda>receipt.
            Inr (HashResult (hash tx))))))))))))"

text \<open>
  Its \<^verbatim>\<open>catch\<close> block is \<^verbatim>\<open>return { success: false, error: formatError(error) };\<close>,
  as in the two price readers.
\<close>

definition updateOraclePrices :: "env \<Rightarrow> world \<Rightarrow> fault + (string, string) op_result" where
  "updateOraclePrices env w =
     try_catch (updateOraclePrices_try env w)
       (\<lambda>error. await (formatError error) (\<lambda>description.
          Inr (ErrorResult description)))"

definition getUnderlyingPrice :: "world \<Rightarrow> jsval \<Rightarrow> fault + (string, string) op_result" where
  "getUnderlyingPrice w cTokenAddress =
     try_catch
       (await (oracle_getUnderlyingPrice w cTokenAddress) (\<lambda>price.
        Inr (PriceResult (toString price))))
       (\<lambda>error. await (formatError error) (\<lambda>description.
          Inr (ErrorResult description)))"

definition getAssetPrice :: "world \<Rightarrow> jsval \<Rightarrow> fault + (string, string) op_result" where
  "getAssetPrice w assetAddress =
     try_catch
       (await (oracle_assetPrices w assetAddress) (\<lambda>price.
        Inr (PriceResult (toString price))))
       (\<lambda>error. await (formatError error) (\<lambda>description.
          Inr (ErrorResult description)))"

text \<open>
  One round of \<^verbatim>\<open>runUpdate\<close> in continuous mode. \<open>startTime\<close> and \<open>endTime\<close> are the two
  readings of \<^verbatim>\<open>Date.now()\<close>; the value is the delay handed to \<^verbatim>\<open>setTimeout\<close>.
\<close>

definition runUpdate :: "env \<Rightarrow> world \<Rightarrow> int \<Rightarrow> int \<Rightarrow> int" where
  "runUpdate env w startTime endTime =
     (case updateOraclePrices env w of
        Inr result \<Rightarrow>
          (let executionTime = endTime - startTime;
               timeUntilNext = max 500 (UPDATE_INTERVAL - executionTime)
           in timeUntilNext)
      | Inl error \<Rightarrow> 10000)"

subsection \<open>Serialisation and the invocation-style entry point\<close>

definition hexdigit :: "nat \<Rightarrow> char" where
  "hexdigit d = ''0123456789abcdef'' ! d"

text \<open>\<^verbatim>\<open>JSON.stringify\<close> on a string: quotes, with the escapes of the standard.\<close>

definition escape_char :: "char \<Rightarrow> string" where
  "escape_char c =
     (if c = CHR 0x22 then [CHR 0x5C, CHR 0x22]
      else if c = CHR 0x5C then [CHR 0x5C, CHR 0x5C]
      else if c = CHR 0x08 then [CHR 0x5C, CHR ''b'']
      else if c = CHR 0x0C then [CHR 0x5C, CHR ''f'']
      else if c = CHR 0x0A then [CHR 0x5C, CHR ''n'']
      else if c = CHR 0x0D then [CHR 0x5C, CHR ''r'']
      else if c = CHR 0x09 then [CHR 0x5C, CHR ''t'']
      else if (of_char c :: nat) < 32 then
        [CHR 0x5C, CHR ''u'', CHR ''0'', CHR ''0'',
         hexdigit (of_char c div 16), hexdigit (of_char c mod 16)]
      else [c])"

definition quote :: "string \<Rightarrow> string" where
  "quote s = [CHR 0x22] @ concat (map escape_char s) @ [CHR 0x22]"

fun JSON_stringify :: "(string, string) op_result \<Rightarrow> string" where
  "JSON_stringify (HashResult h) =
     ''{'' @ quote ''success'' @ '':true,'' @ quote ''hash'' @ '':'' @ quote h @ ''}''"
| "JSON_stringify (PriceResult p) =
     ''{'' @ quote ''success'' @ '':true,'' @ quote ''price'' @ '':'' @ quote p @ ''}''"
| "JSON_stringify (ErrorResult e) =
     ''{'' @ quote ''success'' @ '':false,'' @ quote ''error'' @ '':'' @ quote e @ ''}''"

text \<open>The event: an object whose absent fields read as \<^verbatim>\<open>undefined\<close>.\<close>

record event =
  command :: jsval
  address :: jsval
  noReschedule :: jsval
  source :: jsval

record response =
  statusCode :: nat
  body :: string

text \<open>The choice of operation at the head of the handler's \<^verbatim>\<open>try\<close> block.\<close>

definition dispatch :: "env \<Rightarrow> world \<Rightarrow> event \<Rightarrow> fault + (string, string) op_result" where
  "dispatch env w ev =
     (if command ev = JStr ''price'' \<and> truthy (address ev) then
        getUnderlyingPrice w (address ev)
      else if command ev = JStr ''asset-price'' \<and> truthy (address ev) then
        getAssetPrice w (address ev)
      else updateOraclePrices env w)"

definition handler :: "env \<Rightarrow> world \<Rightarrow> event \<Rightarrow> fault + response" where
  "handler env w ev =
     try_catch
       (await (dispatch env w ev) (\<lambda>result.
        Inr \<lparr>statusCode = 200, body = JSON_stringify result\<rparr>))
       (\<lambda>error. await (formatError error) (\<lambda>description.
          Inr \<lparr>statusCode = 500, body = JSON_stringify (ErrorResult description)\<rparr>))"

subsection \<open>The managed-function build (\<^verbatim>\<open>dist/update-oracle.js\<close>)\<close>

definition updateOraclePrices_managed ::
  "env \<Rightarrow> world \<Rightarrow> fault + (string, string) op_result" where
  "updateOraclePrices_managed env w =
     try_catch
       (case PRIVATE_KEY_TEST env of
          None \<Rightarrow> Inl (JsError
            ''PRIVATE_KEY_TEST environment variable is not set. Please set it in Lambda configuration.'')
        | Some PRIVATE_KEY \<Rightarrow>
            if PRIVATE_KEY = [] then Inl (JsError
              ''PRIVATE_KEY_TEST environment variable is not set. Please set it in Lambda configuration.'')
            else
              await (newWallet w PRIVATE_KEY) (\<lambda>wallet.
              await (provider_getBalance w wallet) (\<lambda>balance.
              await (axios_get w hermesUrl) (\<lambda>data.
              await (rawData data) (\<lambda>raw.
              await (priceUpdateData raw) (\<lambda>blobs.
              await (oracle_pyth w) (\<lambda>pythAddress.
              await (pyth_getUpdateFee w pythAddress blobs) (\<lambda>updateFee.
              await (oracle_updatePythPrices w blobs updateFee) (\<lambda>tx.
              await (wait tx) (\<lambda>receipt.
              Inr (HashResult (hash tx))))))))))))
       (\<lambda>error. await (formatError error) (\<lambda>description.
          Inr (ErrorResult description)))"

definition getUnderlyingPrice_managed ::
  "world \<Rightarrow> jsval \<Rightarrow> fault + (string, string) op_result" where
  "getUnderlyingPrice_managed w cTokenAddress =
     try_catch
       (await (oracle_getUnderlyingPrice w cTokenAddress) (\<lambda>price.
        Inr (PriceResult (toString price))))
       (\<lambda>error. await (formatError error) (\<lambda>description.
          Inr (ErrorResult description)))"

definition getAssetPrice_managed ::
  "world \<Rightarrow> jsval \<Rightarrow> fault + (string, string) op_result" where
  "getAssetPrice_managed w assetAddress =
     try_catch
       (await (oracle_assetPrices w assetAddress) (\<lambda>price.
        Inr (PriceResult (toString price))))
       (\<lambda>error. await (formatError error) (\<lambda>description.
          Inr (ErrorResult description)))"

text \<open>
  \<^verbatim>\<open>scheduleNextInvocation\<close> asks the host for another run of the function. The list
  of requests made so far is threaded through; the request is recorded whether or not
  the host accepts it.
\<close>

definition scheduleNextInvocation ::
  "env \<Rightarrow> world \<Rightarrow> invocation list \<Rightarrow> (fault + unit) \<times> invocation list" where
  "scheduleNextInvocation env w calls =
     (let request =
        \<lparr>FunctionName =
           (case AWS_LAMBDA_FUNCTION_NAME env of
              None \<Rightarrow> ''pythOracleUpdater''
            | Some name \<Rightarrow> if name = [] then ''pythOracleUpdater'' else name),
         InvocationType = ''Event'',
         Payload = ''{}''\<rparr>
      in (try_catch (await (lambda_invoke w request) (\<lambda>u. Inr ())) (\<lambda>error. Inr ()),
          calls @ [request]))"

text \<open>
  \<^verbatim>\<open>if (process.env.AWS_EXECUTION_ENV && !event.noReschedule) {
  await scheduleNextInvocation(); }\<close>, which stands in both branches of the handler.
\<close>

definition reschedule ::
  "env \<Rightarrow> world \<Rightarrow> event \<Rightarrow> invocation list \<Rightarrow> (fault + unit) \<times> invocation list" where
  "reschedule env w ev calls =
     (if truthy_env (AWS_EXECUTION_ENV env) \<and> \<not> truthy (noReschedule ev)
      then scheduleNextInvocation env w calls
      else (Inr (), calls))"

definition dispatch_managed ::
  "env \<Rightarrow> world \<Rightarrow> event \<Rightarrow> fault + (string, string) op_result" where
  "dispatch_managed env w ev =
     (if command ev = JStr ''price'' \<and> truthy (address ev) then
        getUnderlyingPrice_managed w (address ev)
      else if command ev = JStr ''asset-price'' \<and> truthy (address ev) then
        getAssetPrice_managed w (address ev)
      else updateOraclePrices_managed env w)"

text \<open>The \<^verbatim>\<open>catch\<close> block of the managed handler; a fault thrown inside it escapes.\<close>

definition handler_managed_catch ::
  "env \<Rightarrow> world \<Rightarrow> event \<Rightarrow> fault \<Rightarrow> invocation list \<Rightarrow>
     (fault + response) \<times> invocation list" where
  "handler_managed_catch env w ev error calls =
     (case reschedule env w ev calls of
        (Inl error', calls') \<Rightarrow> (Inl error', calls')
      | (Inr u, calls') \<Rightarrow>
          (await (formatError error) (\<lambda>description.
             Inr \<lparr>statusCode = 500, body = JSON_stringify (ErrorResult description)\<rparr>),
           calls'))"

definition handler_managed ::
  "env \<Rightarrow> world \<Rightarrow> event \<Rightarrow> (fault + response) \<times> invocation list" where
  "handler_managed env w ev =
     (case dispatch_managed env w ev of
        Inl error \<Rightarrow> handler_managed_catch env w ev error []
      | Inr result \<Rightarrow>
          (case reschedule env w ev [] of
             (Inl error, calls) \<Rightarrow> handler_managed_catch env w ev error calls
           | (Inr u, calls) \<Rightarrow>
               (Inr \<lparr>statusCode = 200, body = JSON_stringify result\<rparr>, calls)))"

subsection \<open>The older compiled module\<close>

text \<open>
  It has no balance query, and its results carry the raw integer and the raw fault:
  \<^verbatim>\<open>return { success: true, price };\<close> and \<^verbatim>\<open>return { success: false, error };\<close>.
\<close>

definition updateOraclePrices_compiled ::
  "env \<Rightarrow> world \<Rightarrow> fault + (nat, fault) op_result" where
  "updateOraclePrices_compiled env w =
     try_catch
       (case PRIVATE_KEY_TEST env of
          None \<Rightarrow> Inl (JsError
            ''PRIVATE_KEY_TEST environment variable is not set. Please set it in your .env file.'')
        | Some PRIVATE_KEY \<Rightarrow>
            if PRIVATE_KEY = [] then Inl (JsError
              ''PRIVATE_KEY_TEST environment variable is not set. Please set it in your .env file.'')
            else
              await (newWallet w PRIVATE_KEY) (\<lambda>wallet.
              await (axios_get w hermesUrl) (\<lambda>data.
              await (rawData data) (\<lambda>raw.
              await (priceUpdateData raw) (\<lambda>blobs.
              await (oracle_pyth w) (\<lambda>pythAddress.
              await (pyth_getUpdateFee w pythAddress blobs) (\<lambda>updateFee.
              await (oracle_updatePythPrices w blobs updateFee) (\<lambda>tx.
              await (wait tx) (\<lambda>receipt.
              Inr (HashResult (hash tx)))))))))))
       (\<lambda>error. Inr (ErrorResult error))"

definition getUnderlyingPrice_compiled ::
  "world \<Rightarrow> jsval \<Rightarrow> fault + (nat, fault) op_result" where
  "getUnderlyingPrice_compiled w cTokenAddress =
     try_catch
       (await (oracle_getUnderlyingPrice w cTokenAddress) (\<lambda>price. Inr (PriceResult price)))
       (\<lambda>error. Inr (ErrorResult error))"

definition getAssetPrice_compiled ::
  "world \<Rightarrow> jsval \<Rightarrow> fault + (nat, fault) op_result" where
  "getAssetPrice_compiled w assetAddress =
     try_catch
       (await (oracle_assetPrices w assetAddress) (\<lambda>price. Inr (PriceResult price)))
       (\<lambda>error. Inr (ErrorResult error))"

section \<open>Reading decimal strings\<close>

definition is_digit :: "char \<Rightarrow> bool" where
  "is_digit c = (48 \<le> (of_char c :: nat) \<and> (of_char c :: nat) \<le> 57)"

definition digit_value :: "char \<Rightarrow> nat" where
  "digit_value c = of_char c - 48"

definition parseDecimal :: "string \<Rightarrow> nat" where
  "parseDecimal s = foldl (\<lambda>a c. 10 * a + digit_value c) 0 s"

text \<open>
  The reading of "a decimal string scaled by \<open>d\<close> decimals, consistent with the raw
  integer divided by \<open>10 ^ d\<close>": digits, then optionally a point and more digits,
  whose value is \<open>raw / 10 ^ d\<close>. With \<open>k\<close> digits after the point the string denotes
  (its digits read as one integer) \<open>/ 10 ^ k\<close>.
\<close>

definition denotes_scaled :: "string \<Rightarrow> nat \<Rightarrow> nat \<Rightarrow> bool" where
  "denotes_scaled s raw d =
     (let whole = takeWhile (\<lambda>c. c \<noteq> CHR ''.'') s;
          frac = drop (length whole + 1) s
      in whole \<noteq> [] \<and> list_all is_digit whole \<and> list_all is_digit frac \<and>
         parseDecimal (whole @ frac) * 10 ^ d = raw * 10 ^ length frac)"

text \<open>
  The older module's result as the other two variants report it: the raw price
  through \<open>toString\<close>, the raw fault through \<open>formatError\<close>, which may throw.
\<close>

fun render :: "(nat, fault) op_result \<Rightarrow> fault + (string, string) op_result" where
  "render (HashResult h) = Inr (HashResult h)"
| "render (PriceResult p) = Inr (PriceResult (toString p))"
| "render (ErrorResult e) = await (formatError e) (\<lambda>description. Inr (ErrorResult description))"

text \<open>The faults that \<open>formatError\<close> describes: an \<^verbatim>\<open>Error\<close>, or a value that \<^verbatim>\<open>String\<close> converts.\<close>

fun describable :: "fault \<Rightarrow> bool" where
  "describable (JsError m) = True"
| "describable (Thrown s) = True"
| "describable (Unprintable error) = False"

section \<open>Sample environments, worlds and events\<close>

definition sample_env :: env where
  "sample_env =
     \<lparr>PRIVATE_KEY_TEST = Some ''0x01'',
      AWS_EXECUTION_ENV = Some ''AWS_Lambda_nodejs18.x'',
      AWS_LAMBDA_FUNCTION_NAME = None\<rparr>"

definition no_key_env :: env where
  "no_key_env = sample_env\<lparr>PRIVATE_KEY_TEST := None\<rparr>"

definition sample_tx :: tx where
  "sample_tx = \<lparr>hash = ''0xabc'', wait = Inr \<lparr>blockNumber = 7\<rparr>\<rparr>"

text \<open>A world in which every call succeeds.\<close>

definition sample_world :: world where
  "sample_world =
     \<lparr>newWallet = (\<lambda>key. Inr ''0xWallet''),
      provider_getBalance = (\<lambda>a. Inr 5),
      axios_get = (\<lambda>url.
        Inr (JObj [(''binary'', JObj [(''data'', JArr [JStr ''ab'', JStr ''0xcd''])])])),
      oracle_pyth = Inr ''0xPyth'',
      pyth_getUpdateFee = (\<lambda>a blobs. Inr 2),
      oracle_updatePythPrices = (\<lambda>blobs fee. Inr sample_tx),
      oracle_getUnderlyingPrice = (\<lambda>a. Inr 2000000000000000000),
      oracle_assetPrices = (\<lambda>a. Inr 1500000000000000000),
      lambda_invoke = (\<lambda>r. Inr ())\<rparr>"

text \<open>The attestation service is unreachable.\<close>

definition failing_fetch_world :: world where
  "failing_fetch_world =
     sample_world\<lparr>axios_get := (\<lambda>url. Inl (JsError ''Network Error''))\<rparr>"

text \<open>Both price accessors of the oracle contract revert.\<close>

definition reverting_world :: world where
  "reverting_world =
     sample_world
       \<lparr>oracle_getUnderlyingPrice := (\<lambda>a. Inl (JsError ''execution reverted'')),
        oracle_assetPrices := (\<lambda>a. Inl (JsError ''execution reverted''))\<rparr>"


text \<open>The balance query fails; every other call succeeds.\<close>

definition no_balance_world :: world where
  "no_balance_world =
     sample_world\<lparr>provider_getBalance := (\<lambda>a. Inl (JsError ''missing response''))\<rparr>"

text \<open>The host refuses the request for another run.\<close>

definition refusing_host_world :: world where
  "refusing_host_world =
     sample_world\<lparr>lambda_invoke := (\<lambda>r. Inl (JsError ''AccessDeniedException''))\<rparr>"

text \<open>The submission is confirmed in block \<open>n\<close>.\<close>

definition confirmed_in_block :: "nat \<Rightarrow> world" where
  "confirmed_in_block n =
     sample_world\<lparr>oracle_updatePythPrices :=
       (\<lambda>blobs fee. Inr \<lparr>hash = ''0xabc'', wait = Inr \<lparr>blockNumber = n\<rparr>\<rparr>)\<rparr>"

definition empty_event :: event where
  "empty_event =
     \<lparr>command = JUndefined, address = JUndefined, noReschedule = JUndefined,
      source = JUndefined\<rparr>"

definition price_event :: event where
  "price_event =
     \<lparr>command = JStr ''price'', address = JStr ''0xAAA'', noReschedule = JUndefined,
      source = JUndefined\<rparr>"

section \<open>Properties\<close>

subsection \<open>What a catch block lets through\<close>

lemma try_catch_returns:
  "try_catch b (\<lambda>error. Inr (h error)) = Inr (case b of Inl error \<Rightarrow> h error | Inr v \<Rightarrow> v)"
  by (cases b) (simp_all add: try_catch_def)

lemma await_Inr_iff: "await p k = Inr r \<longleftrightarrow> (\<exists>v. p = Inr v \<and> k v = Inr r)"
  by (cases p) (simp_all add: await_def)

lemma formatError_describable: "describable error \<Longrightarrow> \<exists>d. formatError error = Inr d"
  by (cases error) simp_all

text \<open>
  A \<^verbatim>\<open>catch\<close> block that formats the fault returns a failure result when the fault can be
  described, and otherwise throws what the formatting throws.
\<close>

lemma catch_describable:
  assumes "\<forall>error. b = Inl error \<longrightarrow> describable error"
  shows "\<exists>r. try_catch b
           (\<lambda>error. await (formatError error) (\<lambda>description. Inr (ErrorResult description))) =
             Inr r \<and>
           (b = Inr r \<or> (\<exists>d. r = ErrorResult d))"
proof (cases b)
  case (Inl error)
  with assms have "describable error"
    by blast
  then obtain d where "formatError error = Inr d"
    using formatError_describable by blast
  with Inl show ?thesis
    by (simp add: try_catch_def await_def)
next
  case (Inr v)
  then show ?thesis
    by (simp add: try_catch_def)
qed


lemma getUnderlyingPrice_eq:
  "getUnderlyingPrice w a =
     (case oracle_getUnderlyingPrice w a of
        Inl error \<Rightarrow> await (formatError error) (\<lambda>description. Inr (ErrorResult description))
      | Inr price \<Rightarrow> Inr (PriceResult (toString price)))"
  by (simp add: getUnderlyingPrice_def try_catch_def await_def split: sum.splits)

lemma getAssetPrice_eq:
  "getAssetPrice w a =
     (case oracle_assetPrices w a of
        Inl error \<Rightarrow> await (formatError error) (\<lambda>description. Inr (ErrorResult description))
      | Inr price \<Rightarrow> Inr (PriceResult (toString price)))"
  by (simp add: getAssetPrice_def try_catch_def await_def split: sum.splits)

text \<open>
  When the dispatched operation returns, the \<^verbatim>\<open>catch\<close> block of the handler is not
  entered: the status is 200 whatever the operation reports.
\<close>

lemma handler_eq:
  assumes "dispatch env w ev = Inr r"
  shows "handler env w ev = Inr \<lparr>statusCode = 200, body = JSON_stringify r\<rparr>"
  using assms by (simp add: handler_def try_catch_def await_def)

subsection \<open>The scheduler\<close>

text \<open>
  Claim C1. In continuous mode, whenever a submission cycle fails, whatever the cause,
  the scheduler waits exactly 10000 ms before the next cycle. The code departs from
  this: a cycle whose fetch fails ends in a failure result that \<open>runUpdate\<close> does not
  look at, and the next cycle is scheduled after the regular delay. Here the cycle took
  1000 ms and the next one is due after 44000 ms.
\<close>

theorem runUpdate_failed_cycle_regular_delay:
  "updateOraclePrices sample_env failing_fetch_world = Inr (ErrorResult ''Network Error'') \<and>
   runUpdate sample_env failing_fetch_world 0 1000 = 44000"
  by (simp add: runUpdate_def UPDATE_INTERVAL_def updateOraclePrices_def
      updateOraclePrices_try_def sample_env_def failing_fetch_world_def sample_world_def
      try_catch_def await_def)

text \<open>
  Claim C2. In continuous mode, for every cycle whose awaited execution completes
  after \<open>E\<close> milliseconds, the next cycle is scheduled after exactly
  \<open>max 500 (45000 - E)\<close> milliseconds; for every \<open>E \<ge> 45000\<close> that is exactly 500.
  The awaited execution completes when \<open>updateOraclePrices\<close> returns a result, be it a
  success or a failure.
\<close>

theorem runUpdate_delay:
  assumes "updateOraclePrices env w = Inr result"
  shows "runUpdate env w startTime endTime = max 500 (45000 - (endTime - startTime)) \<and>
   (45000 \<le> endTime - startTime \<longrightarrow> runUpdate env w startTime endTime = 500)"
proof -
  from assms
  have "runUpdate env w startTime endTime = max 500 (45000 - (endTime - startTime))"
    by (simp add: runUpdate_def UPDATE_INTERVAL_def)
  then show ?thesis
    by simp
qed

theorem runUpdate_delay_witness:
  "runUpdate sample_env sample_world 1000 47000 = 500 \<and>
   runUpdate sample_env failing_fetch_world 1000 3000 = 43000"
proof -
  have ok: "updateOraclePrices sample_env sample_world = Inr (HashResult ''0xabc'')"
    by (simp add: updateOraclePrices_def updateOraclePrices_try_def sample_env_def
        sample_world_def sample_tx_def try_catch_def await_def rawData_def startsWith_def)
  have failed: "updateOraclePrices sample_env failing_fetch_world =
      Inr (ErrorResult ''Network Error'')"
    by (simp add: updateOraclePrices_def updateOraclePrices_try_def sample_env_def
        failing_fetch_world_def sample_world_def try_catch_def await_def)
  from runUpdate_delay [OF ok, of 1000 47000] runUpdate_delay [OF failed, of 1000 3000]
  show ?thesis
    by simp
qed

text \<open>The awaited execution completes whenever the fault of the cycle, if any, can be described.\<close>

lemma updateOraclePrices_completes:
  assumes "\<forall>error. updateOraclePrices_try env w = Inl error \<longrightarrow> describable error"
  shows "\<exists>result. updateOraclePrices env w = Inr result"
  using catch_describable [OF assms] unfolding updateOraclePrices_def by blast

subsection \<open>The attestation fetcher\<close>

lemma map_throwing_strings:
  "map_throwing add0x (map JStr hs) =
     Inr (map (\<lambda>h. if \<not> startsWith h ''0x'' then ''0x'' @ h else h) hs)"
  by (induction hs) (simp_all add: await_def)

lemma startsWith_0x_prepended: "startsWith (''0x'' @ h) ''0x''"
  by (simp add: startsWith_def)

text \<open>
  Claim C3. For every array of hex strings returned by the attestation service the
  normalisation succeeds with exactly one blob per element, in the same order; every
  blob starts with the marker 0x; an element that already starts with 0x is returned
  unchanged, and any other element has exactly one 0x put in front of it.
\<close>

theorem priceUpdateData_normalises:
  "\<exists>bs. priceUpdateData (JArr (map JStr hs)) = Inr bs \<and> length bs = length hs \<and>
     (\<forall>i < length hs.
        startsWith (bs ! i) ''0x'' \<and>
        (startsWith (hs ! i) ''0x'' \<longrightarrow> bs ! i = hs ! i) \<and>
        (\<not> startsWith (hs ! i) ''0x'' \<longrightarrow> bs ! i = ''0x'' @ hs ! i))"
proof -
  let ?bs = "map (\<lambda>h. if \<not> startsWith h ''0x'' then ''0x'' @ h else h) hs"
  have run: "priceUpdateData (JArr (map JStr hs)) = Inr ?bs"
    by (simp add: map_throwing_strings)
  have len: "length ?bs = length hs"
    by simp
  have each: "\<forall>i < length hs.
        startsWith (?bs ! i) ''0x'' \<and>
        (startsWith (hs ! i) ''0x'' \<longrightarrow> ?bs ! i = hs ! i) \<and>
        (\<not> startsWith (hs ! i) ''0x'' \<longrightarrow> ?bs ! i = ''0x'' @ hs ! i)"
    using startsWith_0x_prepended by simp
  from run len each show ?thesis
    by blast
qed

theorem priceUpdateData_normalises_witness:
  "priceUpdateData (JArr [JStr ''0xab'', JStr ''cd'']) = Inr [''0xab'', ''0xcd'']"
proof -
  obtain bs where run: "priceUpdateData (JArr (map JStr [''0xab'', ''cd''])) = Inr bs"
    and len: "length bs = length [''0xab'', ''cd'']"
    and each: "\<forall>i < length [''0xab'', ''cd''].
        startsWith (bs ! i) ''0x'' \<and>
        (startsWith ([''0xab'', ''cd''] ! i) ''0x'' \<longrightarrow> bs ! i = [''0xab'', ''cd''] ! i) \<and>
        (\<not> startsWith ([''0xab'', ''cd''] ! i) ''0x'' \<longrightarrow>
           bs ! i = ''0x'' @ [''0xab'', ''cd''] ! i)"
    using priceUpdateData_normalises [of "[''0xab'', ''cd'']"] by blast
  from len obtain a b where bs: "bs = [a, b]"
    by (cases bs; cases "tl bs"; cases "tl (tl bs)") auto
  from each have e0: "bs ! 0 = ''0xab''"
    by (simp add: startsWith_def)
  from each have "\<not> startsWith ([''0xab'', ''cd''] ! 1) ''0x'' \<longrightarrow>
           bs ! 1 = ''0x'' @ [''0xab'', ''cd''] ! 1"
    by simp
  then have e1: "bs ! 1 = ''0xcd''"
    by (simp add: startsWith_def)
  from bs e0 e1 have "bs = [''0xab'', ''0xcd'']"
    by simp
  with run show ?thesis
    by simp
qed

subsection \<open>Tagged results\<close>




subsection \<open>The invocation-style entry point\<close>

text \<open>
  Claim C5. For every event the handler returns a structured result whose status code
  is 200 when the dispatched operation succeeds and 500 when it fails, with the
  serialised operation result as the body. The code departs from this when the
  operation fails: the price query reverts, the operation reports the failure, and the
  handler, in the direct script and in the managed build alike, answers 200 with that
  failure as the body.
\<close>

theorem handler_failed_operation_status_200:
  "getUnderlyingPrice reverting_world (JStr ''0xAAA'') =
     Inr (ErrorResult ''execution reverted'') \<and>
   handler sample_env reverting_world price_event =
     Inr \<lparr>statusCode = 200, body = JSON_stringify (ErrorResult ''execution reverted'')\<rparr> \<and>
   fst (handler_managed sample_env reverting_world price_event) =
     Inr \<lparr>statusCode = 200, body = JSON_stringify (ErrorResult ''execution reverted'')\<rparr>"
  by (simp add: handler_def dispatch_def getUnderlyingPrice_def price_event_def
      handler_managed_def dispatch_managed_def getUnderlyingPrice_managed_def reschedule_def
      scheduleNextInvocation_def Let_def sample_env_def
      reverting_world_def sample_world_def try_catch_def await_def)

text \<open>The body of that answer, character by character.\<close>

lemma failure_body:
  "JSON_stringify (ErrorResult ''execution reverted'') =
     [CHR ''{'', CHR 0x22] @ ''success'' @ [CHR 0x22] @ '':false,'' @
     [CHR 0x22] @ ''error'' @ [CHR 0x22, CHR '':'', CHR 0x22] @ ''execution reverted'' @
     [CHR 0x22, CHR ''}'']"
  by (simp add: quote_def escape_char_def)

subsection \<open>The price readers\<close>

lemma digit_value_digit: "d < 10 \<Longrightarrow> digit_value (digit d) = d"
proof -
  assume "d < 10"
  then have "d \<in> {0, 1, 2, 3, 4, 5, 6, 7, 8, 9}"
    by auto
  then show ?thesis
    by (auto simp: digit_value_def digit_def)
qed

lemma is_digit_digit: "d < 10 \<Longrightarrow> is_digit (digit d)"
proof -
  assume "d < 10"
  then have "d \<in> {0, 1, 2, 3, 4, 5, 6, 7, 8, 9}"
    by auto
  then show ?thesis
    by (auto simp: is_digit_def digit_def)
qed

lemma parseDecimal_snoc: "parseDecimal (s @ [c]) = 10 * parseDecimal s + digit_value c"
  by (simp add: parseDecimal_def)

lemma parseDecimal_toString: "parseDecimal (toString n) = n"
proof (induction n rule: toString.induct)
  case (1 n)
  show ?case
  proof (cases "n < 10")
    case True
    then show ?thesis
      by (simp add: toString.simps [of n] parseDecimal_def digit_value_digit)
  next
    case False
    with "1" show ?thesis
      by (simp add: toString.simps [of n] parseDecimal_snoc digit_value_digit)
  qed
qed

lemma toString_digits: "list_all is_digit (toString n)"
proof (induction n rule: toString.induct)
  case (1 n)
  show ?case
  proof (cases "n < 10")
    case True
    then show ?thesis
      by (simp add: toString.simps [of n] is_digit_digit)
  next
    case False
    with "1" show ?thesis
      by (simp add: toString.simps [of n] is_digit_digit)
  qed
qed

lemma toString_nonempty: "toString n \<noteq> []"
  by (subst toString.simps) simp

lemma digit_not_point: "is_digit c \<Longrightarrow> c \<noteq> CHR ''.''"
proof
  assume "is_digit c" and "c = CHR ''.''"
  then have "is_digit (CHR ''.'')"
    by simp
  then show False
    by (simp add: is_digit_def)
qed

lemma takeWhile_digits: "list_all is_digit s \<Longrightarrow> takeWhile (\<lambda>c. c \<noteq> CHR ''.'') s = s"
  by (induction s) (simp_all add: digit_not_point)

lemma denotes_raw: "denotes_scaled (toString raw) raw 0"
  by (simp add: denotes_scaled_def takeWhile_digits toString_digits toString_nonempty
      parseDecimal_toString)

text \<open>
  Claim C6, as stated: on success each price reader returns the price as a decimal
  string scaled by 18 decimals, a string consistent with the raw integer divided by
  \<open>10 ^ 18\<close>. It fails: for the raw integer \<open>2 * 10 ^ 18\<close> the returned string is
  that integer written out, which does not denote 2; likewise for the asset reader.
\<close>

theorem price_readers_unscaled_counterexample:
  "oracle_getUnderlyingPrice sample_world (JStr ''0xAAA'') = Inr 2000000000000000000 \<and>
   getUnderlyingPrice sample_world (JStr ''0xAAA'') =
     Inr (PriceResult ''2000000000000000000'') \<and>
   \<not> denotes_scaled ''2000000000000000000'' 2000000000000000000 18 \<and>
   oracle_assetPrices sample_world (JStr ''0xBBB'') = Inr 1500000000000000000 \<and>
   getAssetPrice sample_world (JStr ''0xBBB'') =
     Inr (PriceResult ''1500000000000000000'') \<and>
   \<not> denotes_scaled ''1500000000000000000'' 1500000000000000000 18"
  by (simp add: getUnderlyingPrice_eq getAssetPrice_eq sample_world_def toString.simps digit_def
      denotes_scaled_def parseDecimal_def digit_value_def is_digit_def)

text \<open>
  Claim C6, amended. For every address on which the call succeeds, each price reader
  returns the raw integer itself as a decimal string, unscaled (\<^verbatim>\<open>price.toString()\<close>):
  the string denotes the raw integer, which is read back from it exactly.
\<close>

theorem price_readers_return_raw_decimal:
  "(oracle_getUnderlyingPrice w a = Inr raw \<longrightarrow>
      getUnderlyingPrice w a = Inr (PriceResult (toString raw))) \<and>
   (oracle_assetPrices w a = Inr raw \<longrightarrow>
      getAssetPrice w a = Inr (PriceResult (toString raw))) \<and>
   parseDecimal (toString raw) = raw \<and>
   denotes_scaled (toString raw) raw 0"
  by (simp add: getUnderlyingPrice_eq getAssetPrice_eq parseDecimal_toString denotes_raw)

theorem price_readers_return_raw_decimal_witness:
  "getUnderlyingPrice sample_world (JStr ''0xAAA'') =
     Inr (PriceResult (toString 2000000000000000000)) \<and>
   getAssetPrice sample_world (JStr ''0xAAA'') =
     Inr (PriceResult (toString 1500000000000000000)) \<and>
   parseDecimal (toString 2000000000000000000) = 2000000000000000000"
  using price_readers_return_raw_decimal [of sample_world "JStr ''0xAAA''" 2000000000000000000]
    price_readers_return_raw_decimal [of sample_world "JStr ''0xAAA''" 1500000000000000000]
  by (simp add: sample_world_def)

subsection \<open>The update submitter\<close>

text \<open>
  Claim C7, as stated: for every submission that reaches one confirmation the success
  result contains both the transaction identifier and the confirmation block number.
  It fails: the same submission confirmed in block 7 and in block 8 gives one and the
  same result, which holds the hash and nothing else.
\<close>

theorem update_result_without_block_counterexample:
  "updateOraclePrices sample_env (confirmed_in_block 7) = Inr (HashResult ''0xabc'') \<and>
   updateOraclePrices sample_env (confirmed_in_block 8) = Inr (HashResult ''0xabc'')"
  by (simp add: updateOraclePrices_def updateOraclePrices_try_def sample_env_def
      confirmed_in_block_def sample_world_def try_catch_def await_def rawData_def
      startsWith_def)

text \<open>
  Claim C7, amended. For every submission that reaches one confirmation (the credential
  is set and every call of the cycle succeeds, the last being \<^verbatim>\<open>tx.wait()\<close>), the
  success result is the transaction identifier alone, whatever the receipt holds.
\<close>

theorem update_success_result_is_hash:
  assumes "PRIVATE_KEY_TEST env = Some key" and "key \<noteq> []"
    and "newWallet w key = Inr wallet"
    and "provider_getBalance w wallet = Inr balance"
    and "axios_get w hermesUrl = Inr data"
    and "rawData data = Inr raw"
    and "priceUpdateData raw = Inr blobs"
    and "oracle_pyth w = Inr pythAddress"
    and "pyth_getUpdateFee w pythAddress blobs = Inr updateFee"
    and "oracle_updatePythPrices w blobs updateFee = Inr t"
    and "wait t = Inr receipt"
  shows "updateOraclePrices env w = Inr (HashResult (hash t))"
  using assms
  by (simp add: updateOraclePrices_def updateOraclePrices_try_def try_catch_def await_def)

theorem update_success_result_is_hash_witness:
  "updateOraclePrices sample_env (confirmed_in_block 7) = Inr (HashResult ''0xabc'')"
  using update_success_result_is_hash [of sample_env "''0x01''" "confirmed_in_block 7"
      "''0xWallet''" 5
      "JObj [(''binary'', JObj [(''data'', JArr [JStr ''ab'', JStr ''0xcd''])])]"
      "JArr [JStr ''ab'', JStr ''0xcd'']" "[''0xab'', ''0xcd'']" "''0xPyth''" 2
      "\<lparr>hash = ''0xabc'', wait = Inr \<lparr>blockNumber = 7\<rparr>\<rparr>" "\<lparr>blockNumber = 7\<rparr>"]
  by (simp add: sample_env_def confirmed_in_block_def sample_world_def rawData_def await_def
      startsWith_def)

text \<open>Conversely, a hash is reported only for a transaction that was sent and confirmed.\<close>

lemma update_success_only_when_confirmed:
  assumes "updateOraclePrices env w = Inr (HashResult h)"
  shows "\<exists>blobs updateFee t receipt.
     oracle_updatePythPrices w blobs updateFee = Inr t \<and> wait t = Inr receipt \<and> h = hash t"
proof -
  from assms have "updateOraclePrices_try env w = Inr (HashResult h)"
    by (auto simp: updateOraclePrices_def try_catch_def await_Inr_iff split: sum.splits)
  then show ?thesis
    unfolding updateOraclePrices_try_def
    by (auto simp: await_Inr_iff split: option.splits if_splits)
qed

subsection \<open>The three variants\<close>

lemma render_success: "render r = Inr r' \<Longrightarrow> success r' = success r"
  by (cases r) (auto simp: await_Inr_iff)

lemma managed_readers_same:
  "getUnderlyingPrice_managed w a = getUnderlyingPrice w a \<and>
   getAssetPrice_managed w a = getAssetPrice w a"
  by (simp add: getUnderlyingPrice_managed_def getUnderlyingPrice_def
      getAssetPrice_managed_def getAssetPrice_def)

lemma managed_update_same:
  "truthy_env (PRIVATE_KEY_TEST env) \<Longrightarrow>
     updateOraclePrices_managed env w = updateOraclePrices env w"
  by (cases "PRIVATE_KEY_TEST env")
    (simp_all add: updateOraclePrices_managed_def updateOraclePrices_def
      updateOraclePrices_try_def)

lemma missing_key_fails:
  "\<not> truthy_env (PRIVATE_KEY_TEST env) \<Longrightarrow>
     updateOraclePrices env w = Inr (ErrorResult
       ''PRIVATE_KEY_TEST environment variable is not set. Please set it in .env file.'') \<and>
     updateOraclePrices_managed env w = Inr (ErrorResult
       ''PRIVATE_KEY_TEST environment variable is not set. Please set it in Lambda configuration.'') \<and>
     updateOraclePrices_compiled env w = Inr (ErrorResult (JsError
       ''PRIVATE_KEY_TEST environment variable is not set. Please set it in your .env file.''))"
  by (cases "PRIVATE_KEY_TEST env")
    (simp_all add: updateOraclePrices_managed_def updateOraclePrices_def
      updateOraclePrices_try_def updateOraclePrices_compiled_def try_catch_def await_def)

lemma compiled_readers_render:
  "(\<exists>r. getUnderlyingPrice_compiled w a = Inr r \<and> getUnderlyingPrice w a = render r) \<and>
   (\<exists>r. getAssetPrice_compiled w a = Inr r \<and> getAssetPrice w a = render r)"
  by (simp add: getUnderlyingPrice_compiled_def getUnderlyingPrice_def
      getAssetPrice_compiled_def getAssetPrice_def try_catch_def await_def split: sum.splits)

lemma compiled_update_render:
  assumes "PRIVATE_KEY_TEST env = Some key" and "key \<noteq> []"
    and "\<forall>wallet. newWallet w key = Inr wallet \<longrightarrow>
           (\<exists>balance. provider_getBalance w wallet = Inr balance)"
  shows "\<exists>r. updateOraclePrices_compiled env w = Inr r \<and> updateOraclePrices env w = render r"
proof (cases "newWallet w key")
  case (Inl error)
  with assms(1,2) show ?thesis
    by (simp add: updateOraclePrices_compiled_def updateOraclePrices_def
        updateOraclePrices_try_def try_catch_def await_def)
next
  case (Inr wallet)
  with assms(3) obtain balance where "provider_getBalance w wallet = Inr balance"
    by blast
  with Inr assms(1,2) show ?thesis
    by (simp add: updateOraclePrices_compiled_def updateOraclePrices_def
        updateOraclePrices_try_def try_catch_def await_def split: sum.splits)
qed

text \<open>
  Claim C8, as stated: for identical external responses the three variants return the
  same success flag, the same hash on success and the same error description on
  failure. It fails twice over. With the credential missing, each variant reports a
  message of its own, and the older module reports the fault itself, not a string.
  With a failing balance query and everything else in order, the direct script fails
  where the older module, which never asks for the balance, succeeds.
\<close>

theorem variants_differ_counterexample:
  "updateOraclePrices no_key_env sample_world = Inr (ErrorResult
     ''PRIVATE_KEY_TEST environment variable is not set. Please set it in .env file.'') \<and>
   updateOraclePrices_managed no_key_env sample_world = Inr (ErrorResult
     ''PRIVATE_KEY_TEST environment variable is not set. Please set it in Lambda configuration.'') \<and>
   updateOraclePrices_compiled no_key_env sample_world = Inr (ErrorResult (JsError
     ''PRIVATE_KEY_TEST environment variable is not set. Please set it in your .env file.'')) \<and>
   updateOraclePrices no_key_env sample_world \<noteq>
     updateOraclePrices_managed no_key_env sample_world \<and>
   updateOraclePrices sample_env no_balance_world = Inr (ErrorResult ''missing response'') \<and>
   updateOraclePrices_compiled sample_env no_balance_world = Inr (HashResult ''0xabc'')"
  by (simp add: updateOraclePrices_def updateOraclePrices_try_def updateOraclePrices_managed_def
      updateOraclePrices_compiled_def no_key_env_def sample_env_def no_balance_world_def
      sample_world_def sample_tx_def try_catch_def await_def rawData_def startsWith_def)

text \<open>
  Claim C8, amended. For identical external responses: the managed-function variant
  returns exactly the direct script's result from both price readers, and from
  \<open>updateOraclePrices\<close> whenever the credential is set. The older compiled module's
  result, with its raw price written by \<open>toString\<close> and its raw fault passed through
  \<open>formatError\<close> as the direct script's \<^verbatim>\<open>catch\<close> block does, is the direct script's
  outcome (in particular the same success flag and hash whenever that is a result)
  from both price readers, and from \<open>updateOraclePrices\<close> whenever the credential is
  set and the balance query, which only the other two make, does not fail. With the
  credential missing all three report a failure, each with the message of its own
  file.
\<close>

theorem variants_agree_up_to_rendering:
  "getUnderlyingPrice_managed w a = getUnderlyingPrice w a \<and>
   getAssetPrice_managed w a = getAssetPrice w a \<and>
   (truthy_env (PRIVATE_KEY_TEST env) \<longrightarrow>
      updateOraclePrices_managed env w = updateOraclePrices env w) \<and>
   (\<exists>r. getUnderlyingPrice_compiled w a = Inr r \<and> getUnderlyingPrice w a = render r \<and>
      (\<forall>r'. render r = Inr r' \<longrightarrow> success r' = success r)) \<and>
   (\<exists>r. getAssetPrice_compiled w a = Inr r \<and> getAssetPrice w a = render r \<and>
      (\<forall>r'. render r = Inr r' \<longrightarrow> success r' = success r)) \<and>
   (PRIVATE_KEY_TEST env = Some key \<and> key \<noteq> [] \<and>
    (\<forall>wallet. newWallet w key = Inr wallet \<longrightarrow>
       (\<exists>balance. provider_getBalance w wallet = Inr balance)) \<longrightarrow>
      (\<exists>r. updateOraclePrices_compiled env w = Inr r \<and>
           updateOraclePrices env w = render r \<and>
           (\<forall>r'. render r = Inr r' \<longrightarrow> success r' = success r))) \<and>
   (\<not> truthy_env (PRIVATE_KEY_TEST env) \<longrightarrow>
      updateOraclePrices env w = Inr (ErrorResult
        ''PRIVATE_KEY_TEST environment variable is not set. Please set it in .env file.'') \<and>
      updateOraclePrices_managed env w = Inr (ErrorResult
        ''PRIVATE_KEY_TEST environment variable is not set. Please set it in Lambda configuration.'') \<and>
      updateOraclePrices_compiled env w = Inr (ErrorResult (JsError
        ''PRIVATE_KEY_TEST environment variable is not set. Please set it in your .env file.'')))"
proof (intro conjI impI)
  show "getUnderlyingPrice_managed w a = getUnderlyingPrice w a"
    and "getAssetPrice_managed w a = getAssetPrice w a"
    using managed_readers_same by blast+
next
  assume "truthy_env (PRIVATE_KEY_TEST env)"
  then show "updateOraclePrices_managed env w = updateOraclePrices env w"
    by (rule managed_update_same)
next
  show "\<exists>r. getUnderlyingPrice_compiled w a = Inr r \<and> getUnderlyingPrice w a = render r \<and>
      (\<forall>r'. render r = Inr r' \<longrightarrow> success r' = success r)"
    using compiled_readers_render [of w a] render_success by blast
next
  show "\<exists>r. getAssetPrice_compiled w a = Inr r \<and> getAssetPrice w a = render r \<and>
      (\<forall>r'. render r = Inr r' \<longrightarrow> success r' = success r)"
    using compiled_readers_render [of w a] render_success by blast
next
  assume "PRIVATE_KEY_TEST env = Some key \<and> key \<noteq> [] \<and>
    (\<forall>wallet. newWallet w key = Inr wallet \<longrightarrow>
       (\<exists>balance. provider_getBalance w wallet = Inr balance))"
  then have "\<exists>r. updateOraclePrices_compiled env w = Inr r \<and>
      updateOraclePrices env w = render r"
    using compiled_update_render [of env key w] by blast
  then show "\<exists>r. updateOraclePrices_compiled env w = Inr r \<and>
           updateOraclePrices env w = render r \<and>
           (\<forall>r'. render r = Inr r' \<longrightarrow> success r' = success r)"
    using render_success by blast
next
  assume missing: "\<not> truthy_env (PRIVATE_KEY_TEST env)"
  show "updateOraclePrices env w = Inr (ErrorResult
        ''PRIVATE_KEY_TEST environment variable is not set. Please set it in .env file.'')"
    using missing_key_fails [OF missing, of w] by blast
  show "updateOraclePrices_managed env w = Inr (ErrorResult
        ''PRIVATE_KEY_TEST environment variable is not set. Please set it in Lambda configuration.'')"
    using missing_key_fails [OF missing, of w] by blast
  show "updateOraclePrices_compiled env w = Inr (ErrorResult (JsError
        ''PRIVATE_KEY_TEST environment variable is not set. Please set it in your .env file.''))"
    using missing_key_fails [OF missing, of w] by blast
qed

theorem variants_agree_up_to_rendering_witness:
  "updateOraclePrices_managed sample_env sample_world =
     updateOraclePrices sample_env sample_world \<and>
   (\<exists>r. updateOraclePrices_compiled sample_env sample_world = Inr r \<and>
        updateOraclePrices sample_env sample_world = render r \<and>
        (\<forall>r'. render r = Inr r' \<longrightarrow> success r' = success r)) \<and>
   updateOraclePrices_compiled no_key_env sample_world = Inr (ErrorResult (JsError
     ''PRIVATE_KEY_TEST environment variable is not set. Please set it in your .env file.''))"
  using variants_agree_up_to_rendering [of sample_world "JStr ''0xAAA''" sample_env "''0x01''"]
    variants_agree_up_to_rendering [of sample_world "JStr ''0xAAA''" no_key_env "''0x01''"]
  by (simp add: sample_env_def no_key_env_def sample_world_def)

subsection \<open>Self-rescheduling under a function host\<close>

text \<open>
  \<open>scheduleNextInvocation\<close> hands exactly one request to \<^verbatim>\<open>lambda.invoke\<close>: for the function
  named by \<^verbatim>\<open>AWS_LAMBDA_FUNCTION_NAME\<close>, or \<^verbatim>\<open>pythOracleUpdater\<close> when that is unset or
  empty, asynchronous (\<^verbatim>\<open>Event\<close>), with the empty event as payload. Whatever the host
  answers, it returns normally.
\<close>

lemma scheduleNextInvocation_eq:
  "scheduleNextInvocation env w calls =
     (Inr (),
      calls @
      [\<lparr>FunctionName =
          (case AWS_LAMBDA_FUNCTION_NAME env of
             None \<Rightarrow> ''pythOracleUpdater''
           | Some name \<Rightarrow> if name = [] then ''pythOracleUpdater'' else name),
        InvocationType = ''Event'',
        Payload = ''{}''\<rparr>])"
  by (simp add: scheduleNextInvocation_def Let_def try_catch_returns)

lemma dispatch_managed_ignores_host:
  "dispatch_managed env (w\<lparr>lambda_invoke := host\<rparr>) ev = dispatch_managed env w ev"
  by (simp add: dispatch_managed_def getUnderlyingPrice_managed_def getAssetPrice_managed_def
      updateOraclePrices_managed_def split: option.splits)

text \<open>
  The managed handler in closed form: the response is fixed by the outcome of the
  dispatched operation, the requests to the host by the environment and the event.
\<close>

lemma handler_managed_eq:
  "handler_managed env w ev =
     (case dispatch_managed env w ev of
        Inr r \<Rightarrow> Inr \<lparr>statusCode = 200, body = JSON_stringify r\<rparr>
      | Inl error \<Rightarrow>
          await (formatError error) (\<lambda>description.
            Inr \<lparr>statusCode = 500, body = JSON_stringify (ErrorResult description)\<rparr>),
      if truthy_env (AWS_EXECUTION_ENV env) \<and> \<not> truthy (noReschedule ev)
      then snd (scheduleNextInvocation env w []) else [])"
  by (cases "dispatch_managed env w ev")
    (simp_all add: handler_managed_def handler_managed_catch_def reschedule_def
      scheduleNextInvocation_eq)

text \<open>
  Claim C9. For every event the managed handler, once the dispatched operation has
  completed (with success or with failure), asks the host to invoke it again exactly
  when it runs under a function host (\<^verbatim>\<open>AWS_EXECUTION_ENV\<close> is set) and the event does
  not ask for no rescheduling; otherwise it makes no such request. Asking the host is
  one call of \<^verbatim>\<open>lambda.invoke\<close>, for this function (the name in
  \<^verbatim>\<open>AWS_LAMBDA_FUNCTION_NAME\<close>, or \<^verbatim>\<open>pythOracleUpdater\<close>), of type \<^verbatim>\<open>Event\<close>, with the
  payload \<^verbatim>\<open>{}\<close>.
\<close>

theorem handler_managed_reschedules_iff_hosted:
  "(truthy_env (AWS_EXECUTION_ENV env) \<and> \<not> truthy (noReschedule ev) \<longrightarrow>
      snd (handler_managed env w ev) =
        [\<lparr>FunctionName =
            (case AWS_LAMBDA_FUNCTION_NAME env of
               None \<Rightarrow> ''pythOracleUpdater''
             | Some name \<Rightarrow> if name = [] then ''pythOracleUpdater'' else name),
          InvocationType = ''Event'',
          Payload = ''{}''\<rparr>]) \<and>
   (\<not> (truthy_env (AWS_EXECUTION_ENV env) \<and> \<not> truthy (noReschedule ev)) \<longrightarrow>
      snd (handler_managed env w ev) = [])"
  by (simp add: handler_managed_eq scheduleNextInvocation_eq)

theorem handler_managed_reschedules_iff_hosted_witness:
  "snd (handler_managed sample_env reverting_world price_event) =
     [\<lparr>FunctionName = ''pythOracleUpdater'', InvocationType = ''Event'', Payload = ''{}''\<rparr>] \<and>
   snd (handler_managed (sample_env\<lparr>AWS_LAMBDA_FUNCTION_NAME := Some ''relayer''\<rparr>)
          sample_world empty_event) =
     [\<lparr>FunctionName = ''relayer'', InvocationType = ''Event'', Payload = ''{}''\<rparr>] \<and>
   snd (handler_managed sample_env sample_world (empty_event\<lparr>noReschedule := JBool True\<rparr>)) =
     [] \<and>
   snd (handler_managed (sample_env\<lparr>AWS_EXECUTION_ENV := None\<rparr>) sample_world empty_event) =
     []"
  using handler_managed_reschedules_iff_hosted [of sample_env price_event reverting_world]
    handler_managed_reschedules_iff_hosted
      [of "sample_env\<lparr>AWS_LAMBDA_FUNCTION_NAME := Some ''relayer''\<rparr>" empty_event sample_world]
    handler_managed_reschedules_iff_hosted
      [of sample_env "empty_event\<lparr>noReschedule := JBool True\<rparr>" sample_world]
    handler_managed_reschedules_iff_hosted
      [of "sample_env\<lparr>AWS_EXECUTION_ENV := None\<rparr>" empty_event sample_world]
  by (simp add: sample_env_def price_event_def empty_event_def)

text \<open>
  Claim C10. A failure of the request for the next invocation is caught inside
  \<open>scheduleNextInvocation\<close>; so for every event the status code and the body that the
  managed handler returns are those fixed by the dispatched operation's result, and a
  failing request does not change them.
\<close>

theorem reschedule_failure_absorbed:
  "fst (scheduleNextInvocation env w calls) = Inr () \<and>
   fst (handler_managed env w ev) =
     (case dispatch_managed env w ev of
        Inr r \<Rightarrow> Inr \<lparr>statusCode = 200, body = JSON_stringify r\<rparr>
      | Inl error \<Rightarrow>
          await (formatError error) (\<lambda>description.
            Inr \<lparr>statusCode = 500, body = JSON_stringify (ErrorResult description)\<rparr>)) \<and>
   fst (handler_managed env (w\<lparr>lambda_invoke := host\<rparr>) ev) = fst (handler_managed env w ev)"
  by (simp add: handler_managed_eq scheduleNextInvocation_eq dispatch_managed_ignores_host)

theorem reschedule_failure_absorbed_witness:
  "fst (scheduleNextInvocation sample_env refusing_host_world []) = Inr () \<and>
   fst (handler_managed sample_env refusing_host_world empty_event) =
     fst (handler_managed sample_env sample_world empty_event) \<and>
   fst (handler_managed sample_env refusing_host_world empty_event) =
     Inr \<lparr>statusCode = 200, body = JSON_stringify (HashResult ''0xabc'')\<rparr>"
proof -
  have run: "dispatch_managed sample_env sample_world empty_event = Inr (HashResult ''0xabc'')"
    by (simp add: dispatch_managed_def updateOraclePrices_managed_def empty_event_def
        sample_env_def sample_world_def sample_tx_def try_catch_def await_def rawData_def
        startsWith_def)
  have same: "refusing_host_world =
      sample_world\<lparr>lambda_invoke := (\<lambda>r. Inl (JsError ''AccessDeniedException''))\<rparr>"
    by (simp add: refusing_host_world_def)
  from reschedule_failure_absorbed
    [of sample_env refusing_host_world "[]" empty_event "\<lambda>r. Inr ()"]
    reschedule_failure_absorbed
    [of sample_env sample_world "[]" empty_event "\<lambda>r. Inl (JsError ''AccessDeniedException'')"]
  show ?thesis
    by (simp add: run same)
qed

end
